theory Spec2Isabelle
  imports Complex_Main "HOL-Library.Product_Lexorder"
begin

section \<open>Data model\<close>

text \<open>
  The relational store as the scheduler reads it. The model classes are declared outside
  the scheduler module; the columns below are the ones its queries name. Timestamps are
  natural numbers, the priority is a rational number (the queries only compare it).
\<close>

datatype json =
    JNull
  | JBool bool
  | JNum rat
  | JStr string
  | JArr "json list"
  | JObj "(string \<times> json) list"

record task =
  t_id :: int
  t_created :: nat
  t_project_id :: int
  t_state :: string
  t_calibration :: int
  t_priority_0 :: rat
  t_info :: "(string \<times> json) list"
  t_n_answers :: int
  t_fav_user_ids :: "int list"

record task_run =
  r_task_id :: int
  r_project_id :: int
  r_user_id :: "int option"
  r_user_ip :: "string option"
  r_external_uid :: "string option"
  r_finish_time :: nat
  r_info :: json

record counter =
  c_task_id :: int
  c_n_task_runs :: int

record project =
  p_id :: int
  p_allow_anonymous_contributors :: bool
  p_info :: "(string \<times> string) list"

record db =
  tasks :: "task list"
  task_runs :: "task_run list"
  counters :: "counter list"
  projects :: "project list"

datatype error = BadRequest | NotFound | AttributeError | ValueError | DataError | NameError

section \<open>Lock manager\<close>

text \<open>
  The fast store maps a resource key to its leases: holder identity and expiry time. The
  holder is the \<open>user_id\<close> the scheduler passes, which is \<open>None\<close> for an anonymous
  requester.
\<close>

type_synonym holder = "int option"
type_synonym leases = "(holder \<times> nat) list"
type_synonym lock_store = "string \<Rightarrow> leases"

definition expire :: "nat \<Rightarrow> leases \<Rightarrow> leases" where
  "expire now ls = filter (\<lambda>(c, e). now < e) ls"

definition holders :: "nat \<Rightarrow> leases \<Rightarrow> holder list" where
  "holders now ls = remdups (map fst (expire now ls))"

text \<open>
  Modelled from the spec: the class LockManager (module redis_lock) is not among the
  sources. \<open>acquire\<close> grants a lease if the count of currently non-expired,
  distinct-identity leases on the key is strictly less than the quota; it is idempotent
  for an identity that already holds a lease (re-acquiring refreshes the TTL and does
  not double-count), and returns false if the quota is already met by other identities.
  A lease is destroyed on TTL expiry. The check and the update are one atomic step.
\<close>

definition lm_acquire_lock ::
  "nat \<Rightarrow> nat \<Rightarrow> lock_store \<Rightarrow> string \<Rightarrow> holder \<Rightarrow> int \<Rightarrow> bool \<times> lock_store" where
  "lm_acquire_lock duration now store resource_id client_id limit =
     (let live = expire now (store resource_id) in
      if client_id \<in> set (holders now live) then
        (True, store(resource_id :=
           filter (\<lambda>(c, e). c \<noteq> client_id) live @ [(client_id, now + duration)]))
      else if int (length (holders now live)) < limit then
        (True, store(resource_id := live @ [(client_id, now + duration)]))
      else (False, store(resource_id := live)))"

text \<open>
  Modelled from the spec: \<open>has\<close> is true iff a non-expired lease for the identity on
  the key exists.
\<close>

definition lm_has_lock :: "nat \<Rightarrow> lock_store \<Rightarrow> string \<Rightarrow> holder \<Rightarrow> bool" where
  "lm_has_lock now store resource_id client_id =
     (client_id \<in> set (holders now (store resource_id)))"

text \<open>
  Modelled from the spec: \<open>release\<close> deletes the lease for the identity on the key; it
  is a no-op if absent.
\<close>

definition lm_release_lock :: "lock_store \<Rightarrow> string \<Rightarrow> holder \<Rightarrow> lock_store" where
  "lm_release_lock store resource_id client_id =
     store(resource_id := filter (\<lambda>(c, e). c \<noteq> client_id) (store resource_id))"

subsection \<open>The scheduler's lock functions\<close>

fun digits :: "nat \<Rightarrow> string" where
  "digits n =
     (if n < 10 then [char_of (48 + n)]
      else digits (n div 10) @ [char_of (48 + n mod 10)])"

definition str_int :: "int \<Rightarrow> string" where
  "str_int i = (if i < 0 then CHR ''-'' # digits (nat (- i)) else digits (nat i))"

definition get_key :: "int \<Rightarrow> int \<Rightarrow> string" where
  "get_key project_id task_id =
     ''pybossa:project:task_requested:timestamps:'' @ str_int project_id @ '':'' @ str_int task_id"

text \<open>
  \<open>TIMEOUT\<close> is the stamp TTL of the contributions guard, a constant declared outside
  the scheduler module: it is the first parameter. \<open>now\<close> is the clock reading of the
  call.
\<close>

definition has_lock :: "nat \<Rightarrow> lock_store \<Rightarrow> int \<Rightarrow> int \<Rightarrow> holder \<Rightarrow> bool" where
  "has_lock now store project_id task_id user_id =
     lm_has_lock now store (get_key project_id task_id) user_id"

definition acquire_lock ::
  "nat \<Rightarrow> nat \<Rightarrow> lock_store \<Rightarrow> int \<Rightarrow> int \<Rightarrow> holder \<Rightarrow> int \<Rightarrow> bool \<times> lock_store" where
  "acquire_lock TIMEOUT now store project_id task_id user_id limit =
     lm_acquire_lock TIMEOUT now store (get_key project_id task_id) user_id limit"

definition release_lock :: "lock_store \<Rightarrow> int \<Rightarrow> int \<Rightarrow> holder \<Rightarrow> lock_store" where
  "release_lock store project_id task_id user_id =
     lm_release_lock store (get_key project_id task_id) user_id"

text \<open>
  A run of acquire calls against one (project, task) key with one quota: each call has
  its caller's identity and its clock reading, and the calls take effect one after the
  other, as atomic steps on the shared store.
\<close>

fun acquire_all ::
  "nat \<Rightarrow> lock_store \<Rightarrow> int \<Rightarrow> int \<Rightarrow> int \<Rightarrow> (holder \<times> nat) list \<Rightarrow> lock_store" where
  "acquire_all TIMEOUT store project_id task_id limit [] = store"
| "acquire_all TIMEOUT store project_id task_id limit ((user_id, now) # calls) =
     acquire_all TIMEOUT
       (snd (acquire_lock TIMEOUT now store project_id task_id user_id limit))
       project_id task_id limit calls"

definition empty_store :: lock_store where
  "empty_store = (\<lambda>_. [])"

text \<open>The invariant of the leases of one key under a quota.\<close>

definition lease_inv :: "int \<Rightarrow> leases \<Rightarrow> bool" where
  "lease_inv q ls = (distinct (map fst ls) \<and> int (length ls) \<le> q)"

section \<open>Scheduler queries\<close>

text \<open>
  Python truth values: \<open>None\<close>, the integer 0 and the empty string are false.
\<close>

definition truthy_int :: "int option \<Rightarrow> bool" where
  "truthy_int v = (case v of None \<Rightarrow> False | Some i \<Rightarrow> i \<noteq> 0)"

definition truthy_str :: "string option \<Rightarrow> bool" where
  "truthy_str v = (case v of None \<Rightarrow> False | Some s \<Rightarrow> s \<noteq> [])"

text \<open>
  The three TaskRun subqueries \<open>filter_by(project_id=..., <column>=...)\<close>, each giving
  the task ids of the matching rows. A column that is NULL in a row equals no value.
\<close>

definition runs_by_user_id :: "db \<Rightarrow> int \<Rightarrow> int option \<Rightarrow> int list" where
  "runs_by_user_id d project_id user_id =
     map r_task_id
       (filter (\<lambda>r. r_project_id r = project_id \<and> r_user_id r = user_id) (task_runs d))"

definition runs_by_user_ip :: "db \<Rightarrow> int \<Rightarrow> string option \<Rightarrow> int list" where
  "runs_by_user_ip d project_id user_ip =
     map r_task_id
       (filter (\<lambda>r. r_project_id r = project_id \<and> r_user_ip r = user_ip) (task_runs d))"

definition runs_by_external_uid :: "db \<Rightarrow> int \<Rightarrow> string option \<Rightarrow> int list" where
  "runs_by_external_uid d project_id external_uid =
     map r_task_id
       (filter (\<lambda>r. r_project_id r = project_id \<and> r_external_uid r = external_uid)
          (task_runs d))"

text \<open>
  A result row is a model object, or a tuple of the object and the columns added to the
  query.
\<close>

datatype datum = DomainObject task | Tuple task "int list"

fun datum_task :: "datum \<Rightarrow> task" where
  "datum_task (DomainObject t) = t"
| "datum_task (Tuple t cols) = t"

fun add_column :: "(task \<Rightarrow> int) \<Rightarrow> datum \<Rightarrow> datum" where
  "add_column f (DomainObject t) = Tuple t [f t]"
| "add_column f (Tuple t cols) = Tuple t (cols @ [f t])"

definition n_favs :: "task \<Rightarrow> int" where
  "n_favs t = int (length (t_fav_user_ids t))"

text \<open>
  \<open>attr\<close> stands for \<open>getattr(Task, orderby)\<close>: the sort key of a row under the named
  column, \<open>None\<close> when the Task class has no such attribute. The rows come back in the
  order of the key, rows of equal key in the order of the underlying query.
\<close>

definition set_orderby_desc ::
  "(string \<Rightarrow> (task \<Rightarrow> 'k::linorder) option) \<Rightarrow> datum list \<Rightarrow> string \<Rightarrow> bool
     \<Rightarrow> error + datum list" where
  "set_orderby_desc attr query orderby descending =
     (if orderby = ''fav_user_ids'' then
        (let query = map (add_column n_favs) query in
         if descending then Inr (rev (sort_key (n_favs \<circ> datum_task) query))
         else Inr (sort_key (n_favs \<circ> datum_task) query))
      else
        (case attr orderby of
           None \<Rightarrow> Inl AttributeError
         | Some col \<Rightarrow>
             if descending then Inr (rev (sort_key (col \<circ> datum_task) query))
             else Inr (sort_key (col \<circ> datum_task) query)))"

fun handle_tuples :: "datum list \<Rightarrow> task list" where
  "handle_tuples [] = []"
| "handle_tuples (DomainObject t # data) = t # handle_tuples data"
| "handle_tuples (Tuple t cols # data) = t # handle_tuples data"

text \<open>
  \<open>query.limit(limit).offset(offset).all()\<close>: the database rejects a negative limit or
  offset.
\<close>

definition limit_offset :: "int \<Rightarrow> int \<Rightarrow> 'a list \<Rightarrow> error + 'a list" where
  "limit_offset limit offset rows =
     (if limit < 0 \<or> offset < 0 then Inl DataError
      else Inr (take (nat limit) (drop (nat offset) rows)))"

text \<open>
  The Candidate Selector builds its exclusion subquery and then its query with
  \<open>and_(...)\<close>. The module binds no name \<open>and_\<close> (it imports \<open>func\<close>, \<open>desc\<close> and
  \<open>text\<close> from sqlalchemy.sql, and has no other binding of it), so evaluating that
  argument raises NameError: the statements after it (ordering, limit, offset) are never
  reached.
\<close>

definition get_candidate_task_ids ::
  "(string \<Rightarrow> (task \<Rightarrow> 'k::linorder) option) \<Rightarrow> db \<Rightarrow> int \<Rightarrow> int option \<Rightarrow> string option
     \<Rightarrow> string option \<Rightarrow> int \<Rightarrow> int \<Rightarrow> string \<Rightarrow> bool \<Rightarrow> error + task list" where
  "get_candidate_task_ids attr d project_id user_id user_ip external_uid limit offset
       orderby desc =
     (let subquery =
        (if truthy_int user_id \<and> \<not> truthy_str user_ip \<and> \<not> truthy_str external_uid then
           runs_by_user_id d project_id user_id
         else
           (let user_ip = (if \<not> truthy_str user_ip then Some ''127.0.0.1'' else user_ip) in
            if truthy_str user_ip \<and> \<not> truthy_str external_uid then
              runs_by_user_ip d project_id user_ip
            else runs_by_external_uid d project_id external_uid))
      in Inl NameError)"

definition n_task_runs :: "db \<Rightarrow> task \<Rightarrow> int" where
  "n_task_runs d t =
     sum_list (map c_n_task_runs (filter (\<lambda>c. c_task_id c = t_id t) (counters d)))"

text \<open>
  The breadth-first query orders by the summed counter first and by the requested
  column second: the rows are ordered by the column, then stably by the sum.
\<close>

definition get_breadth_first_task ::
  "(string \<Rightarrow> (task \<Rightarrow> 'k::linorder) option) \<Rightarrow> db \<Rightarrow> int \<Rightarrow> int option \<Rightarrow> string option
     \<Rightarrow> string option \<Rightarrow> int \<Rightarrow> int \<Rightarrow> string \<Rightarrow> bool \<Rightarrow> error + task list" where
  "get_breadth_first_task attr d project_id user_id user_ip external_uid offset limit
       orderby desc =
     (let project_query =
            map t_id (filter (\<lambda>t. t_project_id t = project_id \<and> t_state t \<noteq> ''completed'')
                        (tasks d));
          subquery =
        (if truthy_int user_id \<and> \<not> truthy_str user_ip \<and> \<not> truthy_str external_uid then
           runs_by_user_id d project_id user_id
         else
           (let user_ip = (if \<not> truthy_str user_ip then Some ''127.0.0.1'' else user_ip) in
            if truthy_str user_ip \<and> \<not> truthy_str external_uid then
              runs_by_user_ip d project_id user_ip
            else runs_by_external_uid d project_id external_uid));
          tmp = filter (\<lambda>i. i \<notin> set subquery) project_query;
          query = map (\<lambda>t. Tuple t [n_task_runs d t])
                    (filter (\<lambda>t. \<exists>c \<in> set (counters d).
                                  t_id t = c_task_id c \<and> c_task_id c \<in> set tmp) (tasks d))
      in case set_orderby_desc attr query orderby desc of
           Inl e \<Rightarrow> Inl e
         | Inr query \<Rightarrow>
             (case limit_offset limit offset
                     (sort_key (n_task_runs d \<circ> datum_task) query) of
                Inl e \<Rightarrow> Inl e
              | Inr data \<Rightarrow> Inr (handle_tuples data)))"

definition get_depth_first_task ::
  "(string \<Rightarrow> (task \<Rightarrow> 'k::linorder) option) \<Rightarrow> db \<Rightarrow> int \<Rightarrow> int option \<Rightarrow> string option
     \<Rightarrow> string option \<Rightarrow> int \<Rightarrow> int \<Rightarrow> string \<Rightarrow> bool \<Rightarrow> error + task list" where
  "get_depth_first_task attr d project_id user_id user_ip external_uid offset limit
       orderby desc =
     get_candidate_task_ids attr d project_id user_id user_ip external_uid limit offset
       orderby desc"

text \<open>
  The exclusion subquery that the identity triple selects, written by precedence: the
  external uid if one is supplied, else the ip if one is supplied, else the user id, else
  the ip 127.0.0.1.
\<close>

definition resolved_runs :: "db \<Rightarrow> int \<Rightarrow> int option \<Rightarrow> string option \<Rightarrow> string option \<Rightarrow> int list" where
  "resolved_runs d project_id user_id user_ip external_uid =
     (if truthy_str external_uid then runs_by_external_uid d project_id external_uid
      else if truthy_str user_ip then runs_by_user_ip d project_id user_ip
      else if truthy_int user_id then runs_by_user_id d project_id user_id
      else runs_by_user_ip d project_id (Some ''127.0.0.1''))"

subsection \<open>Incremental policy\<close>

definition last_task_run :: "db \<Rightarrow> int \<Rightarrow> task_run option" where
  "last_task_run d task_id =
     (case rev (sort_key r_finish_time (filter (\<lambda>r. r_task_id r = task_id) (task_runs d))) of
        [] \<Rightarrow> None
      | r # _ \<Rightarrow> Some r)"

fun dict_set :: "string \<Rightarrow> json \<Rightarrow> (string \<times> json) list \<Rightarrow> (string \<times> json) list" where
  "dict_set k v [] = [(k, v)]"
| "dict_set k v ((k', v') # kvs) =
     (if k' = k then (k, v) # kvs else (k', v') # dict_set k v kvs)"

text \<open>
  \<open>random.randrange(0, n)\<close> draws an index below \<open>n\<close>: the draw is the parameter
  \<open>rnd\<close>, reduced below \<open>n\<close>.
\<close>

definition get_incremental_task ::
  "(string \<Rightarrow> (task \<Rightarrow> 'k::linorder) option) \<Rightarrow> nat \<Rightarrow> db \<Rightarrow> int \<Rightarrow> int option
     \<Rightarrow> string option \<Rightarrow> string option \<Rightarrow> int \<Rightarrow> int \<Rightarrow> string \<Rightarrow> bool
     \<Rightarrow> error + task list option" where
  "get_incremental_task attr rnd d project_id user_id user_ip external_uid offset limit
       orderby desc =
     (case get_candidate_task_ids attr d project_id user_id user_ip external_uid limit offset
             ''priority_0'' True of
        Inl e \<Rightarrow> Inl e
      | Inr candidate_tasks \<Rightarrow>
          (let total_remaining = length candidate_tasks in
           if total_remaining = 0 then Inr None
           else
             (let rand = rnd mod total_remaining;
                  task = candidate_tasks ! rand
              in case last_task_run d (t_id task) of
                   Some last_run \<Rightarrow>
                     Inr (Some [task\<lparr>t_info :=
                                  dict_set ''last_answer'' (r_info last_run) (t_info task)\<rparr>])
                 | None \<Rightarrow> Inr (Some [task]))))"

subsection \<open>Locked policy\<close>

text \<open>
  The SQL comparison \<open>user_id = :user_id\<close> of the locked policy's query: it holds of
  no row when either side is NULL.
\<close>

definition sql_eq :: "'a option \<Rightarrow> 'a option \<Rightarrow> bool" where
  "sql_eq a b = (case a of None \<Rightarrow> False | Some x \<Rightarrow> (case b of None \<Rightarrow> False | Some y \<Rightarrow> x = y))"

text \<open>
  The rows of the locked policy's query. Each row stands for the triple (task id, count
  of the task's runs, n_answers): it holds the task row itself, whose primary key is the
  id that \<open>session.query(Task).get\<close> looks up again, and the count.
\<close>

definition locked_rows :: "db \<Rightarrow> int \<Rightarrow> int option \<Rightarrow> (task \<times> int) list" where
  "locked_rows d project_id user_id =
     map (\<lambda>t. (t, int (length (filter (\<lambda>r. r_task_id r = t_id t) (task_runs d)))))
       (take 10
          (sort_key (\<lambda>t. (- t_priority_0 t, t_id t))
             (filter
                (\<lambda>t. \<not> (\<exists>r \<in> set (task_runs d).
                             r_project_id r = project_id \<and> sql_eq (r_user_id r) user_id \<and>
                             r_task_id r = t_id t) \<and>
                     t_project_id t = project_id \<and> t_state t \<noteq> ''completed'')
                (tasks d))))"

fun locked_loop ::
  "nat \<Rightarrow> nat \<Rightarrow> int \<Rightarrow> holder \<Rightarrow> int \<Rightarrow> int \<Rightarrow> lock_store \<Rightarrow> (task \<times> int) list
     \<Rightarrow> task list option \<times> lock_store" where
  "locked_loop TIMEOUT now project_id user_id offset skipped store [] = (None, store)"
| "locked_loop TIMEOUT now project_id user_id offset skipped store ((t, taskcount) # rows) =
     (let remaining = t_n_answers t - taskcount;
          r = acquire_lock TIMEOUT now store project_id (t_id t) user_id remaining
      in if fst r then
           (if skipped = offset then (Some [t], snd r)
            else locked_loop TIMEOUT now project_id user_id offset (skipped + 1) (snd r) rows)
         else locked_loop TIMEOUT now project_id user_id offset skipped (snd r) rows)"

definition get_locked_task ::
  "nat \<Rightarrow> nat \<Rightarrow> db \<Rightarrow> lock_store \<Rightarrow> int \<Rightarrow> int option \<Rightarrow> string option \<Rightarrow> string option
     \<Rightarrow> int \<Rightarrow> int \<Rightarrow> string \<Rightarrow> bool \<Rightarrow> (error + task list option) \<times> lock_store" where
  "get_locked_task TIMEOUT now d store project_id user_id user_ip external_uid limit offset
       orderby desc =
     (if offset > 2 then (Inl BadRequest, store)
      else
        (let rows = locked_rows d project_id user_id;
             r = locked_loop TIMEOUT now project_id user_id offset 0 store rows
         in (Inr (fst r), snd r)))"

text \<open>
  The outcome of every acquisition the loop would make if it ran over all the rows, in
  order, each on the store the one before left; and the tasks whose acquisition succeeds.
\<close>

fun attempts ::
  "nat \<Rightarrow> nat \<Rightarrow> int \<Rightarrow> holder \<Rightarrow> lock_store \<Rightarrow> (task \<times> int) list \<Rightarrow> (task \<times> bool) list" where
  "attempts TIMEOUT now project_id user_id store [] = []"
| "attempts TIMEOUT now project_id user_id store ((t, taskcount) # rows) =
     (let r = acquire_lock TIMEOUT now store project_id (t_id t) user_id
                (t_n_answers t - taskcount)
      in (t, fst r) # attempts TIMEOUT now project_id user_id (snd r) rows)"

definition granted ::
  "nat \<Rightarrow> nat \<Rightarrow> int \<Rightarrow> holder \<Rightarrow> lock_store \<Rightarrow> (task \<times> int) list \<Rightarrow> task list" where
  "granted TIMEOUT now project_id user_id store rows =
     map fst (filter snd (attempts TIMEOUT now project_id user_id store rows))"

subsection \<open>Dispatcher\<close>

definition new_task ::
  "(string \<Rightarrow> (task \<Rightarrow> 'k::linorder) option) \<Rightarrow> nat \<Rightarrow> nat \<Rightarrow> nat \<Rightarrow> db \<Rightarrow> lock_store \<Rightarrow> int
     \<Rightarrow> string option \<Rightarrow> int option \<Rightarrow> string option \<Rightarrow> string option \<Rightarrow> int \<Rightarrow> int
     \<Rightarrow> string \<Rightarrow> bool \<Rightarrow> (error + task list option) \<times> lock_store" where
  "new_task attr rnd TIMEOUT now d store project_id sched user_id user_ip external_uid
       offset limit orderby desc =
     (if sched = Some ''breadth_first'' then
        (map_sum (\<lambda>e. e) Some
           (get_breadth_first_task attr d project_id user_id user_ip external_uid offset limit
              orderby desc), store)
      else if sched = Some ''depth_first'' then
        (map_sum (\<lambda>e. e) Some
           (get_depth_first_task attr d project_id user_id user_ip external_uid offset limit
              orderby desc), store)
      else if sched = Some ''incremental'' then
        (get_incremental_task attr rnd d project_id user_id user_ip external_uid offset limit
           orderby desc, store)
      else
        get_locked_task TIMEOUT now d store project_id user_id user_ip external_uid limit
          offset orderby desc)"

section \<open>The new-task endpoint\<close>

text \<open>
  A Task object as the endpoint handles it: a row of the task table, or the object
  \<open>Task(info=info)\<close> built in memory, which has its info and no other column set.
\<close>

datatype task_object = Stored task | Unsaved "(string \<times> json) list"

record request =
  args :: "(string \<times> string) list"
  remote_addr :: "string option"
  authorization :: "string option"

text \<open>
  The collaborators of the endpoint that are declared in other modules: Python's
  \<open>int\<close> on a string and \<open>fuzzyboolean\<close> (\<open>None\<close> where they raise),
  \<open>jwt_authorize_project\<close> (\<open>None\<close> where it returns True, else its response), and
  \<open>dictize\<close>, which turns a Task object into a dictionary.
\<close>

record 'r collaborators =
  py_int :: "string \<Rightarrow> int option"
  fuzzyboolean :: "string \<Rightarrow> bool option"
  jwt_authorize_project :: "project \<Rightarrow> string option \<Rightarrow> 'r option"
  dictize :: "task_object \<Rightarrow> (string \<times> json) list"

datatype 'r retrieved = Tasks "task_object list option" | Resp 'r

datatype 'r response = JsonBody json | Forwarded 'r | FormattedError error

definition project_repo_get :: "db \<Rightarrow> int \<Rightarrow> project option" where
  "project_repo_get d project_id = find (\<lambda>p. p_id p = project_id) (projects d)"

text \<open>\<open>request.args.get(name)\<close> when it is true, that is present and not empty.\<close>

definition request_arg :: "request \<Rightarrow> string \<Rightarrow> string option" where
  "request_arg req name =
     (case map_of (args req) name of
        None \<Rightarrow> None
      | Some v \<Rightarrow> if v = [] then None else Some v)"

text \<open>
  \<open>current_user\<close> is the id of the logged-in user, \<open>None\<close> for an anonymous one.
\<close>

definition retrieve_new_task ::
  "'r collaborators \<Rightarrow> (string \<Rightarrow> (task \<Rightarrow> 'k::linorder) option) \<Rightarrow> nat \<Rightarrow> nat \<Rightarrow> nat \<Rightarrow> db
     \<Rightarrow> lock_store \<Rightarrow> request \<Rightarrow> int option \<Rightarrow> int
     \<Rightarrow> (error + 'r retrieved) \<times> lock_store" where
  "retrieve_new_task c attr rnd TIMEOUT now d store req current_user project_id =
     (case project_repo_get d project_id of
        None \<Rightarrow> (Inl NotFound, store)
      | Some project \<Rightarrow>
          if \<not> p_allow_anonymous_contributors project \<and> current_user = None then
            (Inr (Tasks (Some [Unsaved
               [(''error'', JStr ''This project does not allow anonymous contributors'')]])),
             store)
          else
            (case (case request_arg req ''external_uid'' of
                     None \<Rightarrow> None
                   | Some _ \<Rightarrow> jwt_authorize_project c project (authorization req)) of
               Some resp \<Rightarrow> (Inr (Resp resp), store)
             | None \<Rightarrow>
                 (case (case request_arg req ''limit'' of None \<Rightarrow> Some 1 | Some v \<Rightarrow> py_int c v) of
                    None \<Rightarrow> (Inl ValueError, store)
                  | Some limit \<Rightarrow>
                      (let limit = (if limit > 100 then 100 else limit) in
                       case (case request_arg req ''offset'' of
                               None \<Rightarrow> Some 0
                             | Some v \<Rightarrow> py_int c v) of
                         None \<Rightarrow> (Inl ValueError, store)
                       | Some offset \<Rightarrow>
                           (let orderby =
                                  (case request_arg req ''orderby'' of None \<Rightarrow> ''id'' | Some v \<Rightarrow> v)
                            in case (case request_arg req ''desc'' of
                                       None \<Rightarrow> Some False
                                     | Some v \<Rightarrow> fuzzyboolean c v) of
                                 None \<Rightarrow> (Inl ValueError, store)
                               | Some desc \<Rightarrow>
                                   (let user_id = current_user;
                                        user_ip = (if current_user = None then remote_addr req
                                                   else None);
                                        external_uid = map_of (args req) ''external_uid'';
                                        r = new_task attr rnd TIMEOUT now d store project_id
                                              (map_of (p_info project) ''sched'')
                                              user_id user_ip external_uid offset limit
                                              orderby desc
                                    in (case fst r of
                                          Inl e \<Rightarrow> Inl e
                                        | Inr ts \<Rightarrow>
                                            Inr (Tasks (map_option (map Stored) ts)),
                                        snd r)))))))"

text \<open>
  The endpoint. The contributions guard stamps every returned task: the stamped tasks
  are appended to a log. The body of a JSON response is the value given to
  \<open>json.dumps\<close>.
\<close>

definition api_new_task ::
  "'r collaborators \<Rightarrow> (string \<Rightarrow> (task \<Rightarrow> 'k::linorder) option) \<Rightarrow> nat \<Rightarrow> nat \<Rightarrow> nat \<Rightarrow> db
     \<Rightarrow> lock_store \<Rightarrow> task_object list \<Rightarrow> request \<Rightarrow> int option \<Rightarrow> int
     \<Rightarrow> 'r response \<times> lock_store \<times> task_object list" where
  "api_new_task c attr rnd TIMEOUT now d store stamps req current_user project_id =
     (let r = retrieve_new_task c attr rnd TIMEOUT now d store req current_user project_id
      in case fst r of
           Inl e \<Rightarrow> (FormattedError e, snd r, stamps)
         | Inr (Resp resp) \<Rightarrow> (Forwarded resp, snd r, stamps)
         | Inr (Tasks None) \<Rightarrow> (JsonBody (JObj []), snd r, stamps)
         | Inr (Tasks (Some ts)) \<Rightarrow>
             (let data = map (dictize c) ts
              in (if length data = 0 then JsonBody (JObj [])
                  else if length data = 1 then JsonBody (JObj (data ! 0))
                  else JsonBody (JArr (map JObj data)),
                  snd r, stamps @ ts)))"

section \<open>Example data\<close>

definition example_attr :: "string \<Rightarrow> (task \<Rightarrow> rat) option" where
  "example_attr column =
     (if column = ''priority_0'' then Some t_priority_0
      else if column = ''id'' then Some (\<lambda>t. of_int (t_id t))
      else None)"

definition example_task :: "int \<Rightarrow> rat \<Rightarrow> int \<Rightarrow> task" where
  "example_task i priority n_answers =
     \<lparr>t_id = i, t_created = 0, t_project_id = 1, t_state = ''ongoing'', t_calibration = 0,
      t_priority_0 = priority, t_info = [], t_n_answers = n_answers, t_fav_user_ids = []\<rparr>"

definition example_run :: "int \<Rightarrow> int option \<Rightarrow> string option \<Rightarrow> string option \<Rightarrow> task_run" where
  "example_run task_id user_id user_ip external_uid =
     \<lparr>r_task_id = task_id, r_project_id = 1, r_user_id = user_id, r_user_ip = user_ip,
      r_external_uid = external_uid, r_finish_time = 0, r_info = JNull\<rparr>"

definition example_projects :: "project list" where
  "example_projects =
     [\<lparr>p_id = 1, p_allow_anonymous_contributors = False,
       p_info = [(''sched'', ''breadth_first'')]\<rparr>,
      \<lparr>p_id = 2, p_allow_anonymous_contributors = True, p_info = []\<rparr>]"

definition example_db :: "int \<Rightarrow> task_run list \<Rightarrow> db" where
  "example_db n_answers runs =
     \<lparr>tasks = [example_task 1 1 n_answers, example_task 2 0 n_answers], task_runs = runs,
      counters =
        [\<lparr>c_task_id = 1,
          c_n_task_runs = int (length (filter (\<lambda>r. r_task_id r = 1) runs))\<rparr>,
         \<lparr>c_task_id = 2,
          c_n_task_runs = int (length (filter (\<lambda>r. r_task_id r = 2) runs))\<rparr>],
      projects = example_projects\<rparr>"

definition example_collaborators :: "unit collaborators" where
  "example_collaborators =
     \<lparr>py_int = (\<lambda>v. if v = ''2'' then Some 2 else None),
      fuzzyboolean = (\<lambda>_. None),
      jwt_authorize_project = (\<lambda>_ _. None),
      dictize = (\<lambda>obj. case obj of
                   Stored t \<Rightarrow> [(''id'', JNum (of_int (t_id t))), (''info'', JObj (t_info t))]
                 | Unsaved info \<Rightarrow> [(''id'', JNull), (''info'', JObj info)])\<rparr>"

definition example_request :: "(string \<times> string) list \<Rightarrow> request" where
  "example_request a = \<lparr>args = a, remote_addr = Some ''10.0.0.1'', authorization = None\<rparr>"

text \<open>A lock store in which user 7 holds the lease on task 1 of project 1.\<close>

definition held_store :: lock_store where
  "held_store = empty_store(get_key 1 1 := [(Some 7, 100)])"

section \<open>Quota invariant of the lock manager\<close>

lemma distinct_expire:
  "distinct (map fst ls) \<Longrightarrow> distinct (map fst (expire now ls))"
  by (simp add: expire_def distinct_map_filter)

lemma length_expire: "length (expire now ls) \<le> length ls"
  by (simp add: expire_def)

lemma holders_distinct_eq:
  "distinct (map fst ls) \<Longrightarrow> holders now ls = map fst (expire now ls)"
  by (simp add: holders_def distinct_expire)

lemma expire_idem: "expire now (expire now ls) = expire now ls"
  by (simp add: expire_def)

lemma holders_length_le:
  "distinct (map fst ls) \<Longrightarrow> length (holders t ls) \<le> length ls"
  by (simp add: holders_distinct_eq length_expire)

lemma lease_inv_expire: "lease_inv q ls \<Longrightarrow> lease_inv q (expire now ls)"
  using length_expire [of now ls] by (simp add: lease_inv_def distinct_expire)

lemma refresh_length:
  assumes d: "distinct (map fst ls)" and m: "c \<in> fst ` set ls"
  shows "Suc (length (filter (\<lambda>(c', e). c' \<noteq> c) ls)) = length ls"
  using d m
proof (induction ls)
  case Nil
  then show ?case by simp
next
  case (Cons x xs)
  obtain c' e where x: "x = (c', e)" by (cases x)
  show ?case
  proof (cases "c' = c")
    case True
    with Cons.prems x have "c \<notin> fst ` set xs" by auto
    then have "filter (\<lambda>(c', e). c' \<noteq> c) xs = xs"
      by (force simp: filter_id_conv)
    with True x show ?thesis by simp
  next
    case False
    with Cons x show ?thesis by auto
  qed
qed

lemma lm_acquire_inv:
  assumes inv: "lease_inv q (store k)"
  shows "lease_inv q (snd (lm_acquire_lock d now store k c q) k)"
proof -
  let ?live = "expire now (store k)"
  have li: "lease_inv q ?live" using inv by (rule lease_inv_expire)
  then have dl: "distinct (map fst ?live)" and ll: "int (length ?live) \<le> q"
    by (simp_all add: lease_inv_def)
  have h: "holders now ?live = map fst ?live"
    using dl by (simp add: holders_distinct_eq expire_idem)
  show ?thesis
  proof (cases "c \<in> set (holders now ?live)")
    case True
    then have m: "c \<in> fst ` set ?live" using h by simp
    have len: "Suc (length (filter (\<lambda>(c', e). c' \<noteq> c) ?live)) = length ?live"
      using dl m by (rule refresh_length)
    have dist: "distinct (map fst (filter (\<lambda>(c', e). c' \<noteq> c) ?live @ [(c, now + d)]))"
      using dl by (auto simp: distinct_map_filter)
    from True len dist ll show ?thesis
      by (simp add: lm_acquire_lock_def Let_def lease_inv_def)
  next
    case False
    then have nm: "c \<notin> fst ` set ?live" using h by simp
    show ?thesis
    proof (cases "int (length (holders now ?live)) < q")
      case True
      then have "int (length ?live) < q" using h by simp
      with False True dl nm show ?thesis
        by (simp add: lm_acquire_lock_def Let_def lease_inv_def)
    next
      case lt: False
      with False li show ?thesis
        by (simp add: lm_acquire_lock_def Let_def)
    qed
  qed
qed

lemma acquire_all_inv:
  "lease_inv q (store (get_key p t)) \<Longrightarrow>
   lease_inv q (acquire_all d store p t q calls (get_key p t))"
proof (induction calls arbitrary: store)
  case Nil
  then show ?case by simp
next
  case (Cons call calls)
  obtain c now where call: "call = (c, now)" by (cases call)
  have "lease_inv q (snd (acquire_lock d now store p t c q) (get_key p t))"
    unfolding acquire_lock_def using Cons.prems by (rule lm_acquire_inv)
  then show ?case using Cons.IH call by simp
qed

text \<open>
  C1. For every sequence of acquire calls against a single (project, task) lock key with
  quota Q, taking effect one at a time on a store that starts empty, the number of
  distinct identities holding a non-expired lease on that key at any time never exceeds
  Q. The quota is the task's remaining quota passed at grant time.
\<close>

theorem quota_invariant:
  assumes "0 \<le> Q"
  shows "int (length (holders t
           (acquire_all TIMEOUT empty_store project_id task_id Q calls
              (get_key project_id task_id)))) \<le> Q"
proof -
  have "lease_inv Q (empty_store (get_key project_id task_id))"
    using assms by (simp add: lease_inv_def empty_store_def)
  then have inv: "lease_inv Q (acquire_all TIMEOUT empty_store project_id task_id Q calls
                     (get_key project_id task_id))"
    by (rule acquire_all_inv)
  then have "distinct (map fst (acquire_all TIMEOUT empty_store project_id task_id Q calls
                     (get_key project_id task_id)))"
    by (simp add: lease_inv_def)
  from holders_length_le [OF this, of t] inv show ?thesis
    by (simp add: lease_inv_def)
qed

theorem quota_invariant_witness:
  "(0::int) \<le> 1 \<and>
   int (length (holders 5
          (acquire_all 60 empty_store 1 1 1 [(Some 1, 0), (Some 2, 1), (None, 2)]
             (get_key 1 1)))) \<le> 1"
  using quota_invariant [of 1 5 60 1 1 "[(Some 1, 0), (Some 2, 1), (None, 2)]"] by simp

section \<open>Locked policy: offset bound\<close>

text \<open>
  C6. Calling the locked policy with an offset greater than 2 always gives the
  invalid-request error BadRequest, whatever the candidates are, and the lock store is
  returned as it was: no candidate is queried and no lock is acquired.
\<close>

theorem locked_offset_bound:
  "2 < offset \<Longrightarrow>
   get_locked_task TIMEOUT now d store project_id user_id user_ip external_uid limit offset
     orderby desc = (Inl BadRequest, store)"
  by (simp add: get_locked_task_def)

theorem locked_offset_bound_witness:
  "(2::int) < 3 \<and>
   get_locked_task 60 0 (example_db 1 []) empty_store 1 (Some 5) None None 1 3 ''id'' False
     = (Inl BadRequest, empty_store)"
  using locked_offset_bound [of 3 60 0 "example_db 1 []" empty_store 1 "Some 5" None None 1
      "''id''" False]
  by simp

section \<open>Members of the candidate queries\<close>

lemma set_handle_tuples: "set (handle_tuples data) = datum_task ` set data"
  by (induction data rule: handle_tuples.induct) auto

lemma datum_task_add_column: "datum_task (add_column f x) = datum_task x"
  by (cases x) auto

lemma set_orderby_desc_tasks:
  "set_orderby_desc attr query orderby descending = Inr query' \<Longrightarrow>
   datum_task ` set query' = datum_task ` set query"
  by (auto simp: set_orderby_desc_def Let_def image_image datum_task_add_column
      split: if_splits option.splits)

lemma limit_offset_subset: "limit_offset limit offset rows = Inr data \<Longrightarrow> set data \<subseteq> set rows"
  by (auto simp: limit_offset_def split: if_splits dest: in_set_takeD in_set_dropD)

lemma truthy_local [simp]: "truthy_str (Some ''127.0.0.1'')" "\<not> truthy_str None" "\<not> truthy_int None"
  by (simp_all add: truthy_str_def truthy_int_def)

lemma candidates_raise:
  "get_candidate_task_ids attr d project_id user_id user_ip external_uid limit offset
     orderby desc = Inl NameError"
  by (simp add: get_candidate_task_ids_def Let_def)

lemma breadth_members:
  assumes "get_breadth_first_task attr d project_id user_id user_ip external_uid offset limit
             orderby desc = Inr ts"
    and "t \<in> set ts"
  shows "t \<in> set (tasks d) \<and>
         t_id t \<notin> set (resolved_runs d project_id user_id user_ip external_uid)"
proof -
  let ?sub = "resolved_runs d project_id user_id user_ip external_uid"
  let ?pq = "map t_id (filter (\<lambda>t. t_project_id t = project_id \<and> t_state t \<noteq> ''completed'')
                        (tasks d))"
  let ?tmp = "filter (\<lambda>i. i \<notin> set ?sub) ?pq"
  let ?q = "map (\<lambda>t. Tuple t [n_task_runs d t])
                    (filter (\<lambda>t. \<exists>c \<in> set (counters d).
                                  t_id t = c_task_id c \<and> c_task_id c \<in> set ?tmp) (tasks d))"
  from assms(1) obtain q' data where
    o: "set_orderby_desc attr ?q orderby desc = Inr q'" and
    l: "limit_offset limit offset (sort_key (n_task_runs d \<circ> datum_task) q') = Inr data" and
    r: "ts = handle_tuples data"
    by (auto simp: get_breadth_first_task_def resolved_runs_def Let_def
        split: sum.splits if_splits)
  have "set ts = datum_task ` set data" using r by (simp add: set_handle_tuples)
  also have "\<dots> \<subseteq> datum_task ` set q'" using limit_offset_subset [OF l] by auto
  also have "\<dots> = datum_task ` set ?q" using o by (rule set_orderby_desc_tasks)
  finally have "t \<in> datum_task ` set ?q" using assms(2) by auto
  then show ?thesis by (auto simp: image_image)
qed

section \<open>Locked policy: which candidate is returned\<close>

lemma locked_loop_granted:
  "skipped \<le> offset \<Longrightarrow>
   fst (locked_loop TIMEOUT now project_id user_id offset skipped store rows) =
     (let g = granted TIMEOUT now project_id user_id store rows in
      if nat (offset - skipped) < length g then Some [g ! nat (offset - skipped)] else None)"
proof (induction rows arbitrary: skipped store)
  case Nil
  then show ?case by (simp add: granted_def)
next
  case (Cons row rows)
  obtain t taskcount where row: "row = (t, taskcount)" by (cases row)
  let ?r = "acquire_lock TIMEOUT now store project_id (t_id t) user_id (t_n_answers t - taskcount)"
  show ?case
  proof (cases "fst ?r")
    case False
    then show ?thesis using Cons.IH [OF Cons.prems, of "snd ?r"] row
      by (simp add: granted_def Let_def)
  next
    case True
    show ?thesis
    proof (cases "skipped = offset")
      case eq: True
      with True row show ?thesis by (simp add: granted_def Let_def)
    next
      case neq: False
      with Cons.prems have le: "skipped + 1 \<le> offset" by simp
      have n: "nat (offset - skipped) = Suc (nat (offset - (skipped + 1)))"
        using le by simp
      show ?thesis using Cons.IH [OF le, of "snd ?r"] row True neq
        by (simp add: granted_def Let_def n del: nat_diff_distrib)
    qed
  qed
qed

lemma locked_loop_result:
  "locked_loop TIMEOUT now project_id user_id offset skipped store rows = (Some ts, store') \<Longrightarrow>
   \<exists>t taskcount store0. ts = [t] \<and> (t, taskcount) \<in> set rows \<and>
      fst (acquire_lock TIMEOUT now store0 project_id (t_id t) user_id (t_n_answers t - taskcount)) \<and>
      store' = snd (acquire_lock TIMEOUT now store0 project_id (t_id t) user_id (t_n_answers t - taskcount))"
proof (induction rows arbitrary: skipped store)
  case Nil
  then show ?case by simp
next
  case (Cons row rows)
  obtain t taskcount where row: "row = (t, taskcount)" by (cases row)
  let ?r = "acquire_lock TIMEOUT now store project_id (t_id t) user_id (t_n_answers t - taskcount)"
  show ?case
  proof (cases "fst ?r \<and> skipped = offset")
    case True
    with Cons.prems row have "ts = [t]" "store' = snd ?r" by (simp_all add: Let_def)
    with True row show ?thesis by auto
  next
    case False
    then have "\<exists>sk. locked_loop TIMEOUT now project_id user_id offset sk (snd ?r) rows = (Some ts, store')"
      using Cons.prems row by (auto simp: Let_def split: if_splits)
    then obtain sk where "locked_loop TIMEOUT now project_id user_id offset sk (snd ?r) rows = (Some ts, store')" ..
    from Cons.IH [OF this] show ?thesis by auto
  qed
qed


lemma lm_acquire_has:
  "0 < duration \<Longrightarrow> fst (lm_acquire_lock duration now store k c q) \<Longrightarrow>
   lm_has_lock now (snd (lm_acquire_lock duration now store k c q)) k c"
  by (auto simp: lm_acquire_lock_def lm_has_lock_def holders_def expire_def Let_def
      split: if_splits)

text \<open>
  C2, as stated, fails. User 5 asks with offset 1. The acquisition on task 1 fails
  because its quota is exhausted by user 7 (user 5 does not hold it), so one attempt has
  failed when the acquisition on task 2 succeeds; the policy does not return task 2, it
  returns "no task available".
\<close>

theorem locked_skip_counterexample:
  "map (\<lambda>(t, ok). (t_id t, ok))
     (attempts 60 0 1 (Some 5) held_store (locked_rows (example_db 1 []) 1 (Some 5)))
     = [(1, False), (2, True)] \<and>
   \<not> has_lock 0 held_store 1 1 (Some 5) \<and>
   fst (get_locked_task 60 0 (example_db 1 []) held_store 1 (Some 5) None None 1 1
          ''priority_0'' True) = Inr None"
  by code_simp

text \<open>
  C2, amended. For every valid offset (0, 1 or 2) and every candidate list, the skipped
  count tallies the candidates whose lock acquisition succeeded and were passed over;
  a failed acquisition does not change it. The policy returns the single candidate
  whose acquisition is the (offset + 1)-th to succeed, and returns "no task available"
  (\<open>None\<close>, not an error) when fewer than offset + 1 acquisitions succeed.
\<close>

theorem locked_skip_semantics:
  assumes "0 \<le> offset" and "offset \<le> 2"
  shows "fst (get_locked_task TIMEOUT now d store project_id user_id user_ip external_uid
                limit offset orderby desc) =
         Inr (let g = granted TIMEOUT now project_id user_id store
                        (locked_rows d project_id user_id)
              in if nat offset < length g then Some [g ! nat offset] else None)"
  using assms locked_loop_granted [of 0 offset TIMEOUT now project_id user_id store
      "locked_rows d project_id user_id"]
  by (simp add: get_locked_task_def Let_def)

theorem locked_skip_semantics_witness:
  "(0::int) \<le> 0 \<and> (0::int) \<le> 2 \<and>
   map t_id (granted 60 0 1 (Some 5) held_store (locked_rows (example_db 1 []) 1 (Some 5))) = [2] \<and>
   fst (get_locked_task 60 0 (example_db 1 []) held_store 1 (Some 5) None None 1 0
          ''priority_0'' True) = Inr (Some [example_task 2 0 1])"
proof -
  have g: "granted 60 0 1 (Some 5) held_store (locked_rows (example_db 1 []) 1 (Some 5))
            = [example_task 2 0 1]"
    by code_simp
  show ?thesis
    using locked_skip_semantics [of 0 60 0 "example_db 1 []" held_store 1 "Some 5" None None 1
        "''priority_0''" True]
    by (simp add: g example_task_def)
qed

section \<open>Exclusion of tasks already answered\<close>


lemma sql_eq_None [simp]: "\<not> sql_eq a None"
  by (cases a) (auto simp: sql_eq_def)

lemma locked_result_member:
  assumes "fst (get_locked_task TIMEOUT now d store project_id user_id user_ip external_uid
                  limit offset orderby desc) = Inr (Some ts)"
  shows "\<exists>t taskcount store0. ts = [t] \<and>
           (t, taskcount) \<in> set (locked_rows d project_id user_id) \<and>
           fst (acquire_lock TIMEOUT now store0 project_id (t_id t) user_id
                  (t_n_answers t - taskcount)) \<and>
           snd (get_locked_task TIMEOUT now d store project_id user_id user_ip external_uid
                  limit offset orderby desc) =
           snd (acquire_lock TIMEOUT now store0 project_id (t_id t) user_id
                  (t_n_answers t - taskcount))"
proof -
  let ?l = "locked_loop TIMEOUT now project_id user_id offset 0 store
              (locked_rows d project_id user_id)"
  from assms have o: "\<not> offset > 2" by (auto simp: get_locked_task_def split: if_splits)
  with assms have "fst ?l = Some ts" by (simp add: get_locked_task_def Let_def)
  then have "?l = (Some ts, snd ?l)" by (metis prod.collapse)
  from locked_loop_result [OF this] o show ?thesis
    by (simp add: get_locked_task_def Let_def)
qed




section \<open>Identity of the requester under the locked policy\<close>

text \<open>
  C10. The locked policy identifies the requester by \<open>user_id\<close> alone: its result and
  the locks it takes do not depend on \<open>user_ip\<close> or \<open>external_uid\<close> (nor on limit,
  orderby and desc); for an anonymous requester (\<open>user_id\<close> absent) the candidate query
  excludes no task on account of TaskRuns; and the lock of the returned task is held
  under the \<open>user_id\<close>, which for every anonymous requester is the same holder
  \<open>None\<close>.
\<close>

theorem locked_identity:
  "get_locked_task TIMEOUT now d store project_id user_id user_ip external_uid limit offset
     orderby desc =
   get_locked_task TIMEOUT now d store project_id user_id user_ip' external_uid' limit' offset
     orderby' desc' \<and>
   locked_rows d project_id None =
     map (\<lambda>t. (t, int (length (filter (\<lambda>r. r_task_id r = t_id t) (task_runs d)))))
       (take 10
          (sort_key (\<lambda>t. (- t_priority_0 t, t_id t))
             (filter (\<lambda>t. t_project_id t = project_id \<and> t_state t \<noteq> ''completed'')
                (tasks d)))) \<and>
   (0 < TIMEOUT \<and>
    fst (get_locked_task TIMEOUT now d store project_id user_id user_ip external_uid limit
           offset orderby desc) = Inr (Some [t]) \<longrightarrow>
    has_lock now
      (snd (get_locked_task TIMEOUT now d store project_id user_id user_ip external_uid limit
              offset orderby desc))
      project_id (t_id t) user_id)"
proof (intro conjI impI)
  show "get_locked_task TIMEOUT now d store project_id user_id user_ip external_uid limit offset
     orderby desc =
   get_locked_task TIMEOUT now d store project_id user_id user_ip' external_uid' limit' offset
     orderby' desc'"
    by (simp add: get_locked_task_def)
  show "locked_rows d project_id None =
     map (\<lambda>t. (t, int (length (filter (\<lambda>r. r_task_id r = t_id t) (task_runs d)))))
       (take 10
          (sort_key (\<lambda>t. (- t_priority_0 t, t_id t))
             (filter (\<lambda>t. t_project_id t = project_id \<and> t_state t \<noteq> ''completed'')
                (tasks d))))"
    by (simp add: locked_rows_def)
next
  assume a: "0 < TIMEOUT \<and>
    fst (get_locked_task TIMEOUT now d store project_id user_id user_ip external_uid limit
           offset orderby desc) = Inr (Some [t])"
  then obtain taskcount store0 where
    f: "fst (acquire_lock TIMEOUT now store0 project_id (t_id t) user_id
                  (t_n_answers t - taskcount))" and
    s: "snd (get_locked_task TIMEOUT now d store project_id user_id user_ip external_uid
                  limit offset orderby desc) =
           snd (acquire_lock TIMEOUT now store0 project_id (t_id t) user_id
                  (t_n_answers t - taskcount))"
    using locked_result_member [of TIMEOUT now d store project_id user_id user_ip external_uid
        limit offset orderby desc "[t]"] by auto
  from a have "0 < TIMEOUT" by simp
  from lm_acquire_has [OF this] f show "has_lock now
      (snd (get_locked_task TIMEOUT now d store project_id user_id user_ip external_uid limit
              offset orderby desc))
      project_id (t_id t) user_id"
    unfolding s by (simp add: has_lock_def acquire_lock_def)
qed

theorem locked_identity_witness:
  "(0::nat) < 60 \<and>
   fst (get_locked_task 60 0 (example_db 2 [example_run 1 None (Some ''10.0.0.1'') None])
          empty_store 1 None (Some ''10.0.0.1'') None 1 0 ''priority_0'' True)
     = Inr (Some [example_task 1 1 2]) \<and>
   has_lock 0
     (snd (get_locked_task 60 0 (example_db 2 [example_run 1 None (Some ''10.0.0.1'') None])
          empty_store 1 None (Some ''10.0.0.1'') None 1 0 ''priority_0'' True))
     1 (t_id (example_task 1 1 2)) None \<and>
   get_locked_task 60 0 (example_db 2 [example_run 1 None (Some ''10.0.0.1'') None])
          empty_store 1 None (Some ''10.0.0.1'') None 1 0 ''priority_0'' True =
   get_locked_task 60 0 (example_db 2 [example_run 1 None (Some ''10.0.0.1'') None])
          empty_store 1 None (Some ''10.0.0.2'') (Some ''x'') 5 0 ''id'' False"
proof -
  let ?d = "example_db 2 [example_run 1 None (Some ''10.0.0.1'') None]"
  let ?g = "get_locked_task 60 0 ?d empty_store 1 None (Some ''10.0.0.1'') None 1 0
              ''priority_0'' True"
  have l: "fst ?g = Inr (Some [example_task 1 1 2])"
    by code_simp
  note th = locked_identity [of 60 0 ?d empty_store 1 None "Some ''10.0.0.1''" None 1 0
      "''priority_0''" True "Some ''10.0.0.2''" "Some ''x''" 5 "''id''" False
      "example_task 1 1 2"]
  have e: "?g = get_locked_task 60 0 ?d empty_store 1 None (Some ''10.0.0.2'')
                          (Some ''x'') 5 0 ''id'' False"
    using th by (rule conjunct1)
  have "(0::nat) < 60 \<and> fst ?g = Inr (Some [example_task 1 1 2]) \<longrightarrow>
                has_lock 0 (snd ?g) 1 (t_id (example_task 1 1 2)) None"
    using th [THEN conjunct2, THEN conjunct2] .
  with l have h: "has_lock 0 (snd ?g) 1 (t_id (example_task 1 1 2)) None" by simp
  show ?thesis
  proof (intro conjI)
    show "(0::nat) < 60" by simp
  qed (rule l, rule h, rule e)
qed

section \<open>The breadth-first query\<close>

lemma breadth_resolved:
  "get_breadth_first_task attr d project_id user_id user_ip external_uid offset limit
     orderby desc =
   (let tmp = filter (\<lambda>i. i \<notin> set (resolved_runs d project_id user_id user_ip external_uid))
                (map t_id (filter (\<lambda>t. t_project_id t = project_id \<and>
                                        t_state t \<noteq> ''completed'') (tasks d)));
        query = map (\<lambda>t. Tuple t [n_task_runs d t])
                    (filter (\<lambda>t. \<exists>c \<in> set (counters d).
                                  t_id t = c_task_id c \<and> c_task_id c \<in> set tmp) (tasks d))
    in case set_orderby_desc attr query orderby desc of
           Inl e \<Rightarrow> Inl e
         | Inr query \<Rightarrow>
             (case limit_offset limit offset
                     (sort_key (n_task_runs d \<circ> datum_task) query) of
                Inl e \<Rightarrow> Inl e
              | Inr data \<Rightarrow> Inr (handle_tuples data)))"
  by (simp add: get_breadth_first_task_def resolved_runs_def Let_def)

lemma resolved_runs_precedence:
  "resolved_runs d project_id user_id user_ip external_uid =
     (if truthy_str external_uid then resolved_runs d project_id None None external_uid
      else if truthy_str user_ip then resolved_runs d project_id None user_ip None
      else resolved_runs d project_id user_id None None)"
  by (simp add: resolved_runs_def)

lemma limit_offset_ok:
  "0 \<le> limit \<Longrightarrow> 0 \<le> offset \<Longrightarrow> \<exists>data. limit_offset limit offset rows = Inr data"
  by (simp add: limit_offset_def)

lemma set_orderby_desc_ok:
  "orderby = ''fav_user_ids'' \<or> attr orderby \<noteq> None \<Longrightarrow>
   \<exists>q. set_orderby_desc attr query orderby descending = Inr q"
  by (auto simp: set_orderby_desc_def Let_def)

lemma breadth_ok:
  assumes "0 \<le> limit" "0 \<le> offset" "orderby = ''fav_user_ids'' \<or> attr orderby \<noteq> None"
  shows "\<exists>ts. get_breadth_first_task attr d project_id user_id user_ip external_uid offset
                 limit orderby desc = Inr ts"
proof -
  let ?tmp = "filter (\<lambda>i. i \<notin> set (resolved_runs d project_id user_id user_ip external_uid))
                (map t_id (filter (\<lambda>t. t_project_id t = project_id \<and>
                                        t_state t \<noteq> ''completed'') (tasks d)))"
  let ?q = "map (\<lambda>t. Tuple t [n_task_runs d t])
                    (filter (\<lambda>t. \<exists>c \<in> set (counters d).
                                  t_id t = c_task_id c \<and> c_task_id c \<in> set ?tmp) (tasks d))"
  from set_orderby_desc_ok [of orderby attr ?q desc] assms(3) obtain q where
    q: "set_orderby_desc attr ?q orderby desc = Inr q" by blast
  from limit_offset_ok [OF assms(1,2), of "sort_key (n_task_runs d \<circ> datum_task) q"]
  obtain data where
    "limit_offset limit offset (sort_key (n_task_runs d \<circ> datum_task) q) = Inr data" by blast
  with q show ?thesis by (simp add: breadth_resolved)
qed

lemma set_orderby_desc_length:
  "set_orderby_desc attr query orderby descending = Inr query' \<Longrightarrow>
   length query' = length query"
  by (auto simp: set_orderby_desc_def Let_def split: if_splits option.splits)

lemma limit_offset_all:
  "limit_offset limit 0 rows = Inr data \<Longrightarrow> int (length rows) \<le> limit \<Longrightarrow> data = rows"
  by (auto simp: limit_offset_def split: if_splits)

lemma breadth_first_set:
  assumes r: "get_breadth_first_task attr d project_id user_id user_ip external_uid 0 limit
                orderby desc = Inr ts"
    and n: "int (length (tasks d)) \<le> limit"
  shows "set ts =
           {t \<in> set (tasks d).
              (\<exists>c \<in> set (counters d). c_task_id c = t_id t) \<and>
              (\<exists>t' \<in> set (tasks d). t_id t' = t_id t \<and> t_project_id t' = project_id \<and>
                                     t_state t' \<noteq> ''completed'') \<and>
              t_id t \<notin> set (resolved_runs d project_id user_id user_ip external_uid)}"
proof -
  let ?sub = "resolved_runs d project_id user_id user_ip external_uid"
  let ?pq = "map t_id (filter (\<lambda>t. t_project_id t = project_id \<and> t_state t \<noteq> ''completed'')
                        (tasks d))"
  let ?tmp = "filter (\<lambda>i. i \<notin> set ?sub) ?pq"
  let ?f = "filter (\<lambda>t. \<exists>c \<in> set (counters d).
                                  t_id t = c_task_id c \<and> c_task_id c \<in> set ?tmp) (tasks d)"
  let ?q = "map (\<lambda>t. Tuple t [n_task_runs d t]) ?f"
  from r obtain q' data where
    o: "set_orderby_desc attr ?q orderby desc = Inr q'" and
    l: "limit_offset limit 0 (sort_key (n_task_runs d \<circ> datum_task) q') = Inr data" and
    e: "ts = handle_tuples data"
    by (auto simp: breadth_resolved Let_def split: sum.splits)
  have "length q' = length ?q" using o by (rule set_orderby_desc_length)
  also have "\<dots> \<le> length (tasks d)" by simp
  finally have "int (length (sort_key (n_task_runs d \<circ> datum_task) q')) \<le> limit"
    using n by simp
  with l have "data = sort_key (n_task_runs d \<circ> datum_task) q'" by (rule limit_offset_all)
  then have "set ts = datum_task ` set q'" using e by (simp add: set_handle_tuples)
  also have "\<dots> = datum_task ` set ?q" using o by (rule set_orderby_desc_tasks)
  also have "\<dots> = set ?f" by (simp add: image_image)
  finally have s: "set ts = set ?f" .
  show ?thesis unfolding s
  proof (intro set_eqI iffI)
    fix x assume "x \<in> set ?f"
    then show "x \<in> {t \<in> set (tasks d).
              (\<exists>c \<in> set (counters d). c_task_id c = t_id t) \<and>
              (\<exists>t' \<in> set (tasks d). t_id t' = t_id t \<and> t_project_id t' = project_id \<and>
                                     t_state t' \<noteq> ''completed'') \<and>
              t_id t \<notin> set ?sub}"
      by auto
  next
    fix x assume "x \<in> {t \<in> set (tasks d).
              (\<exists>c \<in> set (counters d). c_task_id c = t_id t) \<and>
              (\<exists>t' \<in> set (tasks d). t_id t' = t_id t \<and> t_project_id t' = project_id \<and>
                                     t_state t' \<noteq> ''completed'') \<and>
              t_id t \<notin> set ?sub}"
    then obtain c t' where x: "x \<in> set (tasks d)" and c: "c \<in> set (counters d)"
      and ce: "c_task_id c = t_id x" and t': "t' \<in> set (tasks d)" and te: "t_id t' = t_id x"
      and tp: "t_project_id t' = project_id" and ts: "t_state t' \<noteq> ''completed''"
      and ne: "t_id x \<notin> set ?sub"
      by auto
    from t' tp ts have "t' \<in> set (filter (\<lambda>t. t_project_id t = project_id \<and>
                                           t_state t \<noteq> ''completed'') (tasks d))"
      by simp
    then have "t_id t' \<in> t_id ` set (filter (\<lambda>t. t_project_id t = project_id \<and>
                                           t_state t \<noteq> ''completed'') (tasks d))"
      by (rule imageI)
    with te have "t_id x \<in> set ?pq" by (simp only: set_map)
    with ne have "t_id x \<in> set ?tmp" by simp
    with ce have "t_id x = c_task_id c \<and> c_task_id c \<in> set ?tmp" by simp
    with c have "\<exists>c \<in> set (counters d). t_id x = c_task_id c \<and> c_task_id c \<in> set ?tmp"
      by blast
    with x show "x \<in> set ?f" by simp
  qed
qed

section \<open>Which identity channel the exclusion uses\<close>

text \<open>
  C4, as stated, fails. User 5 has submitted a TaskRun for task 1 and asks the
  breadth-first policy for tasks with the user id 5 and an external uid: task 1 is
  returned, because the exclusion is computed against the external uid and not against
  the user id.
\<close>

theorem identity_channel_counterexample:
  "map r_user_id (task_runs (example_db 2 [example_run 1 (Some 5) None None])) = [Some 5] \<and>
   map r_task_id (task_runs (example_db 2 [example_run 1 (Some 5) None None])) = [1] \<and>
   get_breadth_first_task example_attr (example_db 2 [example_run 1 (Some 5) None None]) 1
     (Some 5) None (Some ''x'') 0 10 ''id'' False
     = Inr [example_task 2 0 2, example_task 1 1 2]"
  by code_simp

text \<open>
  C4, amended. In the breadth-first policy the exclusion is computed against the
  TaskRuns of one identity channel, chosen by the precedence external uid, then user ip,
  then user id: against the TaskRuns with the external uid whenever one is supplied,
  otherwise against those with the user ip whenever one is supplied, and against those
  with the user id only when neither is supplied (against the ip 127.0.0.1 when nothing
  is supplied). Every returned task has no TaskRun of the project in that channel; asked
  without offset and with a limit that covers the task table, the policy returns exactly
  the tasks that have a counter row, are tasks of the project that are not completed,
  and have no TaskRun of the project in that channel; and the result does not depend on
  the user id when an external uid or a user ip is supplied.
\<close>

theorem identity_channel_precedence:
  "resolved_runs d project_id user_id user_ip external_uid =
     (if truthy_str external_uid then runs_by_external_uid d project_id external_uid
      else if truthy_str user_ip then runs_by_user_ip d project_id user_ip
      else if truthy_int user_id then runs_by_user_id d project_id user_id
      else runs_by_user_ip d project_id (Some ''127.0.0.1'')) \<and>
   (get_breadth_first_task attr d project_id user_id user_ip external_uid offset limit
      orderby desc = Inr ts \<and> t \<in> set ts \<longrightarrow>
    t_id t \<notin> set (resolved_runs d project_id user_id user_ip external_uid)) \<and>
   (get_breadth_first_task attr d project_id user_id user_ip external_uid 0 limit
      orderby desc = Inr ts' \<and> int (length (tasks d)) \<le> limit \<longrightarrow>
    set ts' =
      {t \<in> set (tasks d).
         (\<exists>c \<in> set (counters d). c_task_id c = t_id t) \<and>
         (\<exists>t' \<in> set (tasks d). t_id t' = t_id t \<and> t_project_id t' = project_id \<and>
                                t_state t' \<noteq> ''completed'') \<and>
         t_id t \<notin> set (resolved_runs d project_id user_id user_ip external_uid)}) \<and>
   get_breadth_first_task attr d project_id user_id user_ip external_uid offset limit
     orderby desc =
     (if truthy_str external_uid then
        get_breadth_first_task attr d project_id None None external_uid offset limit
          orderby desc
      else if truthy_str user_ip then
        get_breadth_first_task attr d project_id None user_ip None offset limit orderby desc
      else
        get_breadth_first_task attr d project_id user_id None None offset limit
          orderby desc)"
proof (intro conjI impI)
  show "resolved_runs d project_id user_id user_ip external_uid =
     (if truthy_str external_uid then runs_by_external_uid d project_id external_uid
      else if truthy_str user_ip then runs_by_user_ip d project_id user_ip
      else if truthy_int user_id then runs_by_user_id d project_id user_id
      else runs_by_user_ip d project_id (Some ''127.0.0.1''))"
    by (simp add: resolved_runs_def)
next
  assume "get_breadth_first_task attr d project_id user_id user_ip external_uid offset limit
      orderby desc = Inr ts \<and> t \<in> set ts"
  then show "t_id t \<notin> set (resolved_runs d project_id user_id user_ip external_uid)"
    using breadth_members [of attr d project_id user_id user_ip external_uid offset limit
        orderby desc ts t] by blast
next
  assume "get_breadth_first_task attr d project_id user_id user_ip external_uid 0 limit
      orderby desc = Inr ts' \<and> int (length (tasks d)) \<le> limit"
  then show "set ts' =
      {t \<in> set (tasks d).
         (\<exists>c \<in> set (counters d). c_task_id c = t_id t) \<and>
         (\<exists>t' \<in> set (tasks d). t_id t' = t_id t \<and> t_project_id t' = project_id \<and>
                                t_state t' \<noteq> ''completed'') \<and>
         t_id t \<notin> set (resolved_runs d project_id user_id user_ip external_uid)}"
    using breadth_first_set [of attr d project_id user_id user_ip external_uid limit orderby
        desc ts'] by blast
next
  show "get_breadth_first_task attr d project_id user_id user_ip external_uid offset limit
     orderby desc =
     (if truthy_str external_uid then
        get_breadth_first_task attr d project_id None None external_uid offset limit
          orderby desc
      else if truthy_str user_ip then
        get_breadth_first_task attr d project_id None user_ip None offset limit orderby desc
      else
        get_breadth_first_task attr d project_id user_id None None offset limit
          orderby desc)"
    using resolved_runs_precedence [of d project_id user_id user_ip external_uid]
    by (simp add: breadth_resolved split: if_splits)
qed

theorem identity_channel_precedence_witness:
  "get_breadth_first_task example_attr
     (example_db 2 [example_run 1 None None (Some ''x''), example_run 2 (Some 5) None None])
     1 (Some 5) None (Some ''x'') 0 10 ''id'' False = Inr [example_task 2 0 2] \<and>
   int (length (tasks
     (example_db 2 [example_run 1 None None (Some ''x''), example_run 2 (Some 5) None None])))
     \<le> 10 \<and>
   resolved_runs
     (example_db 2 [example_run 1 None None (Some ''x''), example_run 2 (Some 5) None None])
     1 (Some 5) None (Some ''x'') = [1] \<and>
   t_id (example_task 2 0 2) \<notin> set [1] \<and>
   set [example_task 2 0 2] =
     {t \<in> set (tasks
         (example_db 2 [example_run 1 None None (Some ''x''), example_run 2 (Some 5) None None])).
        (\<exists>c \<in> set (counters
           (example_db 2 [example_run 1 None None (Some ''x''),
                          example_run 2 (Some 5) None None])).
           c_task_id c = t_id t) \<and>
        (\<exists>t' \<in> set (tasks
           (example_db 2 [example_run 1 None None (Some ''x''),
                          example_run 2 (Some 5) None None])).
           t_id t' = t_id t \<and> t_project_id t' = 1 \<and> t_state t' \<noteq> ''completed'') \<and>
        t_id t \<notin> set [1]}"
proof -
  let ?d = "example_db 2 [example_run 1 None None (Some ''x''), example_run 2 (Some 5) None None]"
  have b: "get_breadth_first_task example_attr ?d 1 (Some 5) None (Some ''x'') 0 10 ''id'' False
             = Inr [example_task 2 0 2]"
    by code_simp
  have n: "int (length (tasks ?d)) \<le> 10" by code_simp
  have r: "resolved_runs ?d 1 (Some 5) None (Some ''x'') = [1]" by code_simp
  note th = identity_channel_precedence [of ?d 1 "Some 5" None "Some ''x''" example_attr 0 10
      "''id''" False "[example_task 2 0 2]" "example_task 2 0 2" "[example_task 2 0 2]"]
  have m: "t_id (example_task 2 0 2) \<notin> set [1]"
    using th [THEN conjunct2, THEN conjunct1] b r by simp
  have e: "set [example_task 2 0 2] =
     {t \<in> set (tasks ?d).
        (\<exists>c \<in> set (counters ?d). c_task_id c = t_id t) \<and>
        (\<exists>t' \<in> set (tasks ?d). t_id t' = t_id t \<and> t_project_id t' = 1 \<and>
                               t_state t' \<noteq> ''completed'') \<and>
        t_id t \<notin> set [1]}"
    using th [THEN conjunct2, THEN conjunct2, THEN conjunct1] b n r by simp
  show ?thesis
  proof (intro conjI)
  qed (rule b, rule n, rule r, rule m, rule e)
qed

section \<open>The empty identity\<close>

text \<open>
  C9. When the requester identity is completely empty (\<open>user_id\<close>, \<open>user_ip\<close> and
  \<open>external_uid\<close> all absent), the Candidate Selector fails: it raises NameError, as
  on every call. The breadth-first policy does what the claim says: it gives the result
  of the request with the ip 127.0.0.1, every task it returns has no TaskRun of the
  project with the ip 127.0.0.1, asked without offset and with a limit that covers the
  task table it returns exactly the tasks with a counter row that are uncompleted tasks
  of the project without such a TaskRun, and it does not fail, given a limit and an
  offset that are not negative and an ordering column that exists.
\<close>

theorem empty_identity_behaviour:
  "get_candidate_task_ids attr d project_id None None None limit offset orderby desc =
     Inl NameError \<and>
   get_breadth_first_task attr d project_id None None None offset limit orderby desc =
   get_breadth_first_task attr d project_id None (Some ''127.0.0.1'') None offset limit
     orderby desc \<and>
   (get_breadth_first_task attr d project_id None None None offset limit orderby desc = Inr ts
      \<and> t \<in> set ts \<longrightarrow>
    t_id t \<notin> set (runs_by_user_ip d project_id (Some ''127.0.0.1''))) \<and>
   (get_breadth_first_task attr d project_id None None None 0 limit orderby desc = Inr ts'
      \<and> int (length (tasks d)) \<le> limit \<longrightarrow>
    set ts' =
      {t \<in> set (tasks d).
         (\<exists>c \<in> set (counters d). c_task_id c = t_id t) \<and>
         (\<exists>t' \<in> set (tasks d). t_id t' = t_id t \<and> t_project_id t' = project_id \<and>
                                t_state t' \<noteq> ''completed'') \<and>
         t_id t \<notin> set (runs_by_user_ip d project_id (Some ''127.0.0.1''))}) \<and>
   (0 \<le> limit \<and> 0 \<le> offset \<and> (orderby = ''fav_user_ids'' \<or> attr orderby \<noteq> None) \<longrightarrow>
    (\<exists>ts. get_breadth_first_task attr d project_id None None None offset limit orderby desc
            = Inr ts))"
proof (intro conjI impI)
  show "get_candidate_task_ids attr d project_id None None None limit offset orderby desc =
     Inl NameError"
    by (rule candidates_raise)
  show "get_breadth_first_task attr d project_id None None None offset limit orderby desc =
   get_breadth_first_task attr d project_id None (Some ''127.0.0.1'') None offset limit
     orderby desc"
    by (simp add: breadth_resolved resolved_runs_def)
next
  assume "get_breadth_first_task attr d project_id None None None offset limit orderby desc
            = Inr ts \<and> t \<in> set ts"
  then have "t_id t \<notin> set (resolved_runs d project_id None None None)"
    using breadth_members [of attr d project_id None None None offset limit orderby desc
        ts t] by blast
  then show "t_id t \<notin> set (runs_by_user_ip d project_id (Some ''127.0.0.1''))"
    by (simp add: resolved_runs_def)
next
  assume "get_breadth_first_task attr d project_id None None None 0 limit orderby desc = Inr ts'
      \<and> int (length (tasks d)) \<le> limit"
  then have "set ts' =
      {t \<in> set (tasks d).
         (\<exists>c \<in> set (counters d). c_task_id c = t_id t) \<and>
         (\<exists>t' \<in> set (tasks d). t_id t' = t_id t \<and> t_project_id t' = project_id \<and>
                                t_state t' \<noteq> ''completed'') \<and>
         t_id t \<notin> set (resolved_runs d project_id None None None)}"
    using breadth_first_set [of attr d project_id None None None limit orderby desc ts']
    by blast
  then show "set ts' =
      {t \<in> set (tasks d).
         (\<exists>c \<in> set (counters d). c_task_id c = t_id t) \<and>
         (\<exists>t' \<in> set (tasks d). t_id t' = t_id t \<and> t_project_id t' = project_id \<and>
                                t_state t' \<noteq> ''completed'') \<and>
         t_id t \<notin> set (runs_by_user_ip d project_id (Some ''127.0.0.1''))}"
    by (simp add: resolved_runs_def)
next
  assume "0 \<le> limit \<and> 0 \<le> offset \<and> (orderby = ''fav_user_ids'' \<or> attr orderby \<noteq> None)"
  then show "\<exists>ts. get_breadth_first_task attr d project_id None None None offset limit
                     orderby desc = Inr ts"
    using breadth_ok [of limit offset orderby attr d project_id None None None desc]
    by blast
qed

theorem empty_identity_behaviour_witness:
  "get_candidate_task_ids example_attr
     (example_db 2 [example_run 1 None (Some ''127.0.0.1'') None]) 1 None None None 10 0
     ''id'' False = Inl NameError \<and>
   get_breadth_first_task example_attr
     (example_db 2 [example_run 1 None (Some ''127.0.0.1'') None]) 1 None None None 0 10
     ''id'' False = Inr [example_task 2 0 2] \<and>
   runs_by_user_ip (example_db 2 [example_run 1 None (Some ''127.0.0.1'') None]) 1
     (Some ''127.0.0.1'') = [1] \<and>
   t_id (example_task 2 0 2) \<notin> set [1] \<and>
   get_breadth_first_task example_attr
     (example_db 2 [example_run 1 None (Some ''127.0.0.1'') None]) 1 None None None 0 10
     ''id'' False =
   get_breadth_first_task example_attr
     (example_db 2 [example_run 1 None (Some ''127.0.0.1'') None]) 1 None
     (Some ''127.0.0.1'') None 0 10 ''id'' False \<and>
   int (length (tasks (example_db 2 [example_run 1 None (Some ''127.0.0.1'') None]))) \<le> 10 \<and>
   set [example_task 2 0 2] =
     {t \<in> set (tasks (example_db 2 [example_run 1 None (Some ''127.0.0.1'') None])).
        (\<exists>c \<in> set (counters (example_db 2 [example_run 1 None (Some ''127.0.0.1'') None])).
           c_task_id c = t_id t) \<and>
        (\<exists>t' \<in> set (tasks (example_db 2 [example_run 1 None (Some ''127.0.0.1'') None])).
           t_id t' = t_id t \<and> t_project_id t' = 1 \<and> t_state t' \<noteq> ''completed'') \<and>
        t_id t \<notin> set [1]} \<and>
   (0::int) \<le> 10 \<and> (0::int) \<le> 0 \<and> example_attr ''id'' \<noteq> None \<and>
   (\<exists>ts. get_breadth_first_task example_attr
           (example_db 2 [example_run 1 None (Some ''127.0.0.1'') None]) 1 None None None 0 10
           ''id'' False = Inr ts)"
proof -
  let ?d = "example_db 2 [example_run 1 None (Some ''127.0.0.1'') None]"
  note th = empty_identity_behaviour [of example_attr ?d 1 10 0 "''id''" False
      "[example_task 2 0 2]" "example_task 2 0 2" "[example_task 2 0 2]"]
  have c: "get_candidate_task_ids example_attr ?d 1 None None None 10 0 ''id'' False
             = Inl NameError"
    using th by (rule conjunct1)
  have b: "get_breadth_first_task example_attr ?d 1 None None None 0 10 ''id'' False
             = Inr [example_task 2 0 2]"
    by code_simp
  have r: "runs_by_user_ip ?d 1 (Some ''127.0.0.1'') = [1]" by code_simp
  have n: "t_id (example_task 2 0 2) \<notin> set [1]"
    using th [THEN conjunct2, THEN conjunct2, THEN conjunct1] b r by simp
  have e: "get_breadth_first_task example_attr ?d 1 None None None 0 10 ''id'' False =
           get_breadth_first_task example_attr ?d 1 None (Some ''127.0.0.1'') None 0 10
             ''id'' False"
    using th [THEN conjunct2, THEN conjunct1] .
  have l: "int (length (tasks ?d)) \<le> 10" by code_simp
  have q: "set [example_task 2 0 2] =
     {t \<in> set (tasks ?d).
        (\<exists>c \<in> set (counters ?d). c_task_id c = t_id t) \<and>
        (\<exists>t' \<in> set (tasks ?d). t_id t' = t_id t \<and> t_project_id t' = 1 \<and>
                               t_state t' \<noteq> ''completed'') \<and>
        t_id t \<notin> set [1]}"
    using th [THEN conjunct2, THEN conjunct2, THEN conjunct2, THEN conjunct1] b l r by simp
  have a: "example_attr ''id'' \<noteq> None" by (simp add: example_attr_def)
  have x: "\<exists>ts. get_breadth_first_task example_attr ?d 1 None None None 0 10 ''id'' False
             = Inr ts"
    using th [THEN conjunct2, THEN conjunct2, THEN conjunct2, THEN conjunct2] a by simp
  show ?thesis
  proof (intro conjI)
    show "(0::int) \<le> 10" by simp
    show "(0::int) \<le> 0" by simp
  qed (rule c, rule b, rule r, rule n, rule e, rule l, rule q, rule a, rule x)
qed

section \<open>Incremental policy\<close>

text \<open>
  C5. The incremental policy begins by calling the Candidate Selector, which raises
  NameError: on every input the policy raises NameError, and returns neither an empty
  result nor a task.
\<close>

theorem incremental_raises:
  "get_incremental_task attr rnd d project_id user_id user_ip external_uid offset limit
     orderby desc = Inl NameError"
  by (simp add: get_incremental_task_def candidates_raise)

section \<open>The new-task endpoint: encoding of the response\<close>

text \<open>
  C7. The response of the new-task endpoint depends on the number of tasks returned: no
  task (an absent result or an empty list) is the empty JSON object, exactly one task
  is the JSON object of that task (not an array of one element), and more than one task
  is the JSON array of the task objects.
\<close>

theorem new_task_encoding:
  "(fst (retrieve_new_task c attr rnd TIMEOUT now d store req current_user project_id)
      = Inr (Tasks None) \<longrightarrow>
    fst (api_new_task c attr rnd TIMEOUT now d store stamps req current_user project_id)
      = JsonBody (JObj [])) \<and>
   (fst (retrieve_new_task c attr rnd TIMEOUT now d store req current_user project_id)
      = Inr (Tasks (Some [])) \<longrightarrow>
    fst (api_new_task c attr rnd TIMEOUT now d store stamps req current_user project_id)
      = JsonBody (JObj [])) \<and>
   (fst (retrieve_new_task c attr rnd TIMEOUT now d store req current_user project_id)
      = Inr (Tasks (Some [t])) \<longrightarrow>
    fst (api_new_task c attr rnd TIMEOUT now d store stamps req current_user project_id)
      = JsonBody (JObj (dictize c t))) \<and>
   (fst (retrieve_new_task c attr rnd TIMEOUT now d store req current_user project_id)
      = Inr (Tasks (Some ts)) \<and> 1 < length ts \<longrightarrow>
    fst (api_new_task c attr rnd TIMEOUT now d store stamps req current_user project_id)
      = JsonBody (JArr (map (\<lambda>t. JObj (dictize c t)) ts)))"
  by (simp add: api_new_task_def Let_def comp_def)

theorem new_task_encoding_witness:
  "fst (retrieve_new_task example_collaborators example_attr 0 60 0 (example_db 2 [])
          empty_store (example_request []) (Some 5) 2) = Inr (Tasks None) \<and>
   fst (api_new_task example_collaborators example_attr 0 60 0 (example_db 2 [])
          empty_store [] (example_request []) (Some 5) 2) = JsonBody (JObj []) \<and>
   fst (retrieve_new_task example_collaborators example_attr 0 60 0
          (example_db 2 [example_run 1 (Some 5) None None, example_run 2 (Some 5) None None])
          empty_store (example_request []) (Some 5) 1) = Inr (Tasks (Some [])) \<and>
   fst (api_new_task example_collaborators example_attr 0 60 0
          (example_db 2 [example_run 1 (Some 5) None None, example_run 2 (Some 5) None None])
          empty_store [] (example_request []) (Some 5) 1) = JsonBody (JObj []) \<and>
   fst (retrieve_new_task example_collaborators example_attr 0 60 0 (example_db 2 [])
          empty_store (example_request []) (Some 5) 1)
     = Inr (Tasks (Some [Stored (example_task 1 1 2)])) \<and>
   fst (api_new_task example_collaborators example_attr 0 60 0 (example_db 2 [])
          empty_store [] (example_request []) (Some 5) 1)
     = JsonBody (JObj [(''id'', JNum 1), (''info'', JObj [])]) \<and>
   fst (retrieve_new_task example_collaborators example_attr 0 60 0 (example_db 2 [])
          empty_store (example_request [(''limit'', ''2'')]) (Some 5) 1)
     = Inr (Tasks (Some [Stored (example_task 1 1 2), Stored (example_task 2 0 2)])) \<and>
   fst (api_new_task example_collaborators example_attr 0 60 0 (example_db 2 [])
          empty_store [] (example_request [(''limit'', ''2'')]) (Some 5) 1)
     = JsonBody (JArr [JObj [(''id'', JNum 1), (''info'', JObj [])],
                       JObj [(''id'', JNum 2), (''info'', JObj [])]])"
proof -
  let ?c = example_collaborators
  let ?full = "example_db 2 [example_run 1 (Some 5) None None, example_run 2 (Some 5) None None]"
  have r1: "fst (retrieve_new_task ?c example_attr 0 60 0 (example_db 2 [])
          empty_store (example_request []) (Some 5) 2) = Inr (Tasks None)"
    by code_simp
  have r2: "fst (retrieve_new_task ?c example_attr 0 60 0 ?full
          empty_store (example_request []) (Some 5) 1) = Inr (Tasks (Some []))"
    by code_simp
  have r3: "fst (retrieve_new_task ?c example_attr 0 60 0 (example_db 2 [])
          empty_store (example_request []) (Some 5) 1)
     = Inr (Tasks (Some [Stored (example_task 1 1 2)]))"
    by code_simp
  have r4: "fst (retrieve_new_task ?c example_attr 0 60 0 (example_db 2 [])
          empty_store (example_request [(''limit'', ''2'')]) (Some 5) 1)
     = Inr (Tasks (Some [Stored (example_task 1 1 2), Stored (example_task 2 0 2)]))"
    by code_simp
  have d1: "dictize ?c (Stored (example_task 1 1 2)) = [(''id'', JNum 1), (''info'', JObj [])]"
    by code_simp
  have d2: "dictize ?c (Stored (example_task 2 0 2)) = [(''id'', JNum 2), (''info'', JObj [])]"
    by code_simp
  have a1: "fst (api_new_task ?c example_attr 0 60 0 (example_db 2 [])
          empty_store [] (example_request []) (Some 5) 2) = JsonBody (JObj [])"
    using new_task_encoding [of ?c example_attr 0 60 0 "example_db 2 []" empty_store
        "example_request []" "Some 5" 2 "[]", THEN conjunct1] r1 by simp
  have a2: "fst (api_new_task ?c example_attr 0 60 0 ?full
          empty_store [] (example_request []) (Some 5) 1) = JsonBody (JObj [])"
    using new_task_encoding [of ?c example_attr 0 60 0 ?full empty_store
        "example_request []" "Some 5" 1 "[]", THEN conjunct2, THEN conjunct1] r2 by simp
  have a3: "fst (api_new_task ?c example_attr 0 60 0 (example_db 2 [])
          empty_store [] (example_request []) (Some 5) 1)
     = JsonBody (JObj [(''id'', JNum 1), (''info'', JObj [])])"
    using new_task_encoding [of ?c example_attr 0 60 0 "example_db 2 []" empty_store
        "example_request []" "Some 5" 1 "[]" "Stored (example_task 1 1 2)",
        THEN conjunct2, THEN conjunct2, THEN conjunct1] r3 d1 by simp
  have a4: "fst (api_new_task ?c example_attr 0 60 0 (example_db 2 [])
          empty_store [] (example_request [(''limit'', ''2'')]) (Some 5) 1)
     = JsonBody (JArr [JObj [(''id'', JNum 1), (''info'', JObj [])],
                       JObj [(''id'', JNum 2), (''info'', JObj [])]])"
    using new_task_encoding [of ?c example_attr 0 60 0 "example_db 2 []" empty_store
        "example_request [(''limit'', ''2'')]" "Some 5" 1 "[]" _
        "[Stored (example_task 1 1 2), Stored (example_task 2 0 2)]",
        THEN conjunct2, THEN conjunct2, THEN conjunct2] r4 d1 d2 by simp
  show ?thesis
  proof (intro conjI)
  qed (rule r1, rule a1, rule r2, rule a2, rule r3, rule a3, rule r4, rule a4)
qed

text \<open>
  C8. For every project that does not allow anonymous contributors and every anonymous
  requester, new-task retrieval returns, through the normal return channel and not as an
  error, a list of one synthetic task whose info carries the error message "This project
  does not allow anonymous contributors"; the lock store is untouched and the endpoint
  answers with the JSON object of that task.
\<close>

theorem anonymous_not_allowed:
  "project_repo_get d project_id = Some p \<and> \<not> p_allow_anonymous_contributors p \<longrightarrow>
   retrieve_new_task c attr rnd TIMEOUT now d store req None project_id =
     (Inr (Tasks (Some [Unsaved
        [(''error'', JStr ''This project does not allow anonymous contributors'')]])), store) \<and>
   fst (api_new_task c attr rnd TIMEOUT now d store stamps req None project_id) =
     JsonBody (JObj (dictize c (Unsaved
        [(''error'', JStr ''This project does not allow anonymous contributors'')])))"
  by (simp add: api_new_task_def retrieve_new_task_def Let_def)

theorem anonymous_not_allowed_witness:
  "project_repo_get (example_db 2 []) 1 = Some (hd example_projects) \<and>
   \<not> p_allow_anonymous_contributors (hd example_projects) \<and>
   retrieve_new_task example_collaborators example_attr 0 60 0 (example_db 2 []) empty_store
     (example_request []) None 1 =
     (Inr (Tasks (Some [Unsaved
        [(''error'', JStr ''This project does not allow anonymous contributors'')]])),
      empty_store) \<and>
   fst (api_new_task example_collaborators example_attr 0 60 0 (example_db 2 []) empty_store
          [] (example_request []) None 1) =
     JsonBody (JObj [(''id'', JNull),
       (''info'', JObj [(''error'',
          JStr ''This project does not allow anonymous contributors'')])])"
proof -
  have p: "project_repo_get (example_db 2 []) 1 = Some (hd example_projects)" by code_simp
  have n: "\<not> p_allow_anonymous_contributors (hd example_projects)" by code_simp
  have d: "dictize example_collaborators (Unsaved
        [(''error'', JStr ''This project does not allow anonymous contributors'')]) =
        [(''id'', JNull), (''info'', JObj [(''error'',
          JStr ''This project does not allow anonymous contributors'')])]"
    by code_simp
  note th = anonymous_not_allowed [of "example_db 2 []" 1 "hd example_projects"
      example_collaborators example_attr 0 60 0 empty_store "example_request []" "[]"]
  from th p n have both: "retrieve_new_task example_collaborators example_attr 0 60 0
      (example_db 2 []) empty_store (example_request []) None 1 =
     (Inr (Tasks (Some [Unsaved
        [(''error'', JStr ''This project does not allow anonymous contributors'')]])),
      empty_store) \<and>
   fst (api_new_task example_collaborators example_attr 0 60 0 (example_db 2 []) empty_store
          [] (example_request []) None 1) =
     JsonBody (JObj (dictize example_collaborators (Unsaved
        [(''error'', JStr ''This project does not allow anonymous contributors'')])))"
    by blast
  show ?thesis
  proof (intro conjI)
    show "fst (api_new_task example_collaborators example_attr 0 60 0 (example_db 2 [])
            empty_store [] (example_request []) None 1) =
     JsonBody (JObj [(''id'', JNull),
       (''info'', JObj [(''error'',
          JStr ''This project does not allow anonymous contributors'')])])"
      using both [THEN conjunct2] by (simp only: d)
  qed (rule p, rule n, rule both [THEN conjunct1])
qed

end
